theory Spec2Isabelle
  imports Main "HOL-Library.Char_ord" "HOL-Library.List_Lexorder" "HOL-Library.Multiset"
begin

section \<open>Data model of \<^verbatim>\<open>lwe/backends/api/orm.py\<close>\<close>

text \<open>
  The three mapped classes are records, one field per \<^verbatim>\<open>Column\<close>. A nullable column
  is an option. \<^verbatim>\<open>DateTime\<close> values are points on a clock, here natural numbers;
  \<^verbatim>\<open>datetime.datetime.now()\<close> is the argument \<open>now\<close> of the operations that read it.
  Strings are byte lists, compared byte by byte (the BINARY collation).
  Logging has no effect on the store and is left out.
\<close>

type_synonym datetime = nat

datatype json =
    JNull
  | JBool bool
  | JNum int
  | JStr string
  | JArr "json list"
  | JObj "(string \<times> json) list"

record user =
  u_id :: int
  u_username :: string
  u_password :: "string option"
  u_email :: "string option"
  u_default_preset :: string
  u_created_time :: datetime
  u_last_login_time :: "datetime option"
  u_preferences :: json

record conversation =
  c_id :: int
  c_user_id :: int
  c_title :: "string option"
  c_created_time :: datetime
  c_updated_time :: datetime
  c_hidden :: bool

record message =
  m_id :: int
  m_conversation_id :: int
  m_role :: string
  m_message :: string
  m_message_type :: string
  m_message_metadata :: "string option"
  m_model :: string
  m_provider :: string
  m_preset :: string
  m_created_time :: datetime

text \<open>The three tables, rows in insertion order.\<close>

record db =
  users :: "user list"
  conversations :: "conversation list"
  messages :: "message list"

text \<open>
  The session of the \<^verbatim>\<open>Manager\<close>: \<open>working\<close> is the database as the open transaction
  sees it, \<open>committed\<close> the database as of the last commit, \<open>commits\<close> counts the
  commits made. \<open>loaded_conversations\<close> holds the ids of the users whose
  \<^verbatim>\<open>conversations\<close> collection has been loaded since the last commit, and
  \<open>loaded_messages\<close> the ids of the conversations whose \<^verbatim>\<open>messages\<close> collection has.

  An object is identified by its primary key: an object whose key is a row of its table is
  persistent in the session, any other object is not.
\<close>

record session =
  working :: db
  committed :: db
  commits :: nat
  loaded_conversations :: "int list"
  loaded_messages :: "int list"

datatype error =
    IntegrityError
  | InvalidRequestError
  | AttributeError
  | TypeError

section \<open>The schema's constraints\<close>

text \<open>
  Primary keys, the \<^verbatim>\<open>unique=True\<close> columns (a NULL email never collides) and the
  two foreign keys, which \<^verbatim>\<open>_set_sqlite_pragma\<close> switches on.
\<close>

definition integrity_ok :: "db \<Rightarrow> bool" where
  "integrity_ok d =
     (distinct (map u_id (users d)) \<and>
      distinct (map u_username (users d)) \<and>
      distinct (List.map_filter u_email (users d)) \<and>
      distinct (map c_id (conversations d)) \<and>
      list_all (\<lambda>c. c_user_id c \<in> set (map u_id (users d))) (conversations d) \<and>
      distinct (map m_id (messages d)) \<and>
      list_all (\<lambda>m. m_conversation_id m \<in> set (map c_id (conversations d))) (messages d))"

text \<open>
  An autoincrement integer primary key: one more than the largest key of the table,
  1 in an empty table.
\<close>

definition next_id :: "int list \<Rightarrow> int" where
  "next_id ids = (case ids of [] \<Rightarrow> 1 | x # xs \<Rightarrow> fold max xs x + 1)"

section \<open>Queries\<close>

text \<open>
  A \<^verbatim>\<open>Query\<close> under construction: the rows selected so far, in order, and the LIMIT
  and OFFSET set on it. \<^verbatim>\<open>Query.filter\<close> and \<^verbatim>\<open>Query.order_by\<close> refuse a query
  that already has a LIMIT or an OFFSET (they raise InvalidRequestError); the error is
  kept in \<open>q_error\<close> and comes out when the query is run, since nothing between the
  call and the run catches it.
\<close>

record 'a query =
  q_rows :: "'a list"
  q_limit :: "nat option"
  q_offset :: "nat option"
  q_error :: "error option"

definition session_query :: "'a list \<Rightarrow> 'a query" where
  "session_query tbl = \<lparr>q_rows = tbl, q_limit = None, q_offset = None, q_error = None\<rparr>"

definition filter_q :: "('a \<Rightarrow> bool) \<Rightarrow> 'a query \<Rightarrow> 'a query" where
  "filter_q P q =
     (if q_limit q = None \<and> q_offset q = None
      then q\<lparr>q_rows := filter P (q_rows q)\<rparr>
      else q\<lparr>q_error := Some InvalidRequestError\<rparr>)"

definition order_by :: "('a \<Rightarrow> 'k::linorder) \<Rightarrow> 'a query \<Rightarrow> 'a query" where
  "order_by k q =
     (if q_limit q = None \<and> q_offset q = None
      then q\<lparr>q_rows := sort_key k (q_rows q)\<rparr>
      else q\<lparr>q_error := Some InvalidRequestError\<rparr>)"

definition order_by_desc :: "('a \<Rightarrow> 'k::linorder) \<Rightarrow> 'a query \<Rightarrow> 'a query" where
  "order_by_desc k q =
     (if q_limit q = None \<and> q_offset q = None
      then q\<lparr>q_rows := rev (sort_key k (q_rows q))\<rparr>
      else q\<lparr>q_error := Some InvalidRequestError\<rparr>)"

definition limit_q :: "nat \<Rightarrow> 'a query \<Rightarrow> 'a query" where
  "limit_q n q = q\<lparr>q_limit := Some n\<rparr>"

definition offset_q :: "nat \<Rightarrow> 'a query \<Rightarrow> 'a query" where
  "offset_q n q = q\<lparr>q_offset := Some n\<rparr>"

text \<open>Running a query: OFFSET rows are skipped, then at most LIMIT rows are returned.\<close>

definition all_q :: "'a query \<Rightarrow> error + 'a list" where
  "all_q q =
     (case q_error q of
        Some e \<Rightarrow> Inl e
      | None \<Rightarrow>
          (let skipped = drop (case q_offset q of None \<Rightarrow> 0 | Some k \<Rightarrow> k) (q_rows q)
           in Inr (case q_limit q of None \<Rightarrow> skipped | Some n \<Rightarrow> take n skipped)))"

definition first_q :: "'a query \<Rightarrow> error + 'a option" where
  "first_q q =
     (case all_q (limit_q 1 q) of
        Inl e \<Rightarrow> Inl e
      | Inr [] \<Rightarrow> Inr None
      | Inr (x # _) \<Rightarrow> Inr (Some x))"

section \<open>The Manager: reads\<close>

definition apply_limit_offset :: "'a query \<Rightarrow> nat option \<Rightarrow> nat option \<Rightarrow> 'a query" where
  "apply_limit_offset query limit offset =
     (let query = (case limit of None \<Rightarrow> query | Some n \<Rightarrow> limit_q n query);
          query = (case offset of None \<Rightarrow> query | Some k \<Rightarrow> offset_q k query)
      in query)"

definition orm_get_users :: "session \<Rightarrow> nat option \<Rightarrow> nat option \<Rightarrow> error + user list" where
  "orm_get_users s limit offset =
     (let query = order_by u_username (session_query (users (working s)));
          query = apply_limit_offset query limit offset
      in all_q query)"

text \<open>
  The default of \<open>limit\<close> is \<^verbatim>\<open>constants.DEFAULT_HISTORY_LIMIT\<close>, a constant of another
  module; here the caller always passes the limit.
\<close>

definition orm_get_conversations ::
  "session \<Rightarrow> user \<Rightarrow> nat option \<Rightarrow> nat option \<Rightarrow> bool \<Rightarrow> error + conversation list" where
  "orm_get_conversations s user limit offset order_desc =
     (let query =
            (if order_desc
             then order_by_desc c_id
                    (filter_q (\<lambda>c. c_user_id c = u_id user)
                       (session_query (conversations (working s))))
             else order_by c_id (session_query (conversations (working s))));
          query = apply_limit_offset query limit offset
      in all_q query)"

text \<open>\<^verbatim>\<open>if target_id:\<close> is Python truthiness: None and 0 both skip the filter.\<close>

definition orm_get_messages ::
  "session \<Rightarrow> conversation \<Rightarrow> nat option \<Rightarrow> nat option \<Rightarrow> int option \<Rightarrow> error + message list" where
  "orm_get_messages s conversation limit offset target_id =
     (let query = order_by m_id
                    (filter_q (\<lambda>m. m_conversation_id m = c_id conversation)
                       (session_query (messages (working s))));
          query = apply_limit_offset query limit offset;
          query = (case target_id of
                     None \<Rightarrow> query
                   | Some n \<Rightarrow> if n = 0 then query else filter_q (\<lambda>m. m_id m \<le> n) query)
      in all_q query)"

definition orm_get_last_message :: "session \<Rightarrow> conversation \<Rightarrow> error + message option" where
  "orm_get_last_message s conversation =
     (let query = limit_q 1
                    (order_by_desc m_id
                       (filter_q (\<lambda>m. m_conversation_id m = c_id conversation)
                          (session_query (messages (working s)))))
      in first_q query)"

text \<open>\<^verbatim>\<open>session.get(Class, key)\<close>: the row with that primary key, or None.\<close>

definition orm_get_user :: "session \<Rightarrow> int \<Rightarrow> user option" where
  "orm_get_user s user_id = find (\<lambda>u. u_id u = user_id) (users (working s))"

definition orm_get_conversation :: "session \<Rightarrow> int \<Rightarrow> conversation option" where
  "orm_get_conversation s conversation_id =
     find (\<lambda>c. c_id c = conversation_id) (conversations (working s))"

definition orm_get_message :: "session \<Rightarrow> int \<Rightarrow> message option" where
  "orm_get_message s message_id = find (\<lambda>m. m_id m = message_id) (messages (working s))"

text \<open>
  The two collections, \<^verbatim>\<open>User.conversations\<close> and \<^verbatim>\<open>Conversation.messages\<close>: reading
  one loads it into the session.
\<close>

definition user_conversations :: "session \<Rightarrow> user \<Rightarrow> conversation list \<times> session" where
  "user_conversations s user =
     (filter (\<lambda>c. c_user_id c = u_id user) (conversations (working s)),
      s\<lparr>loaded_conversations := u_id user # loaded_conversations s\<rparr>)"

definition conversation_messages :: "session \<Rightarrow> conversation \<Rightarrow> message list \<times> session" where
  "conversation_messages s conversation =
     (filter (\<lambda>m. m_conversation_id m = c_id conversation) (messages (working s)),
      s\<lparr>loaded_messages := c_id conversation # loaded_messages s\<rparr>)"

section \<open>The session: writes\<close>

text \<open>
  \<^verbatim>\<open>session.add\<close> inserts the row; the database assigns the primary key, whatever the
  object held before.
\<close>

definition session_add_user :: "session \<Rightarrow> user \<Rightarrow> user \<times> session" where
  "session_add_user s user =
     (let row = user\<lparr>u_id := next_id (map u_id (users (working s)))\<rparr>
      in (row, s\<lparr>working := (working s)\<lparr>users := users (working s) @ [row]\<rparr>\<rparr>))"

definition session_add_conversation :: "session \<Rightarrow> conversation \<Rightarrow> conversation \<times> session" where
  "session_add_conversation s conversation =
     (let row = conversation\<lparr>c_id := next_id (map c_id (conversations (working s)))\<rparr>
      in (row, s\<lparr>working := (working s)\<lparr>conversations := conversations (working s) @ [row]\<rparr>\<rparr>))"

definition session_add_message :: "session \<Rightarrow> message \<Rightarrow> message \<times> session" where
  "session_add_message s message =
     (let row = message\<lparr>m_id := next_id (map m_id (messages (working s)))\<rparr>
      in (row, s\<lparr>working := (working s)\<lparr>messages := messages (working s) @ [row]\<rparr>\<rparr>))"

text \<open>
  A changed object is written back to the row it was loaded from, found by primary key.
\<close>

definition session_update_user :: "session \<Rightarrow> int \<Rightarrow> user \<Rightarrow> session" where
  "session_update_user s key row =
     s\<lparr>working := (working s)
         \<lparr>users := map (\<lambda>u. if u_id u = key then row else u) (users (working s))\<rparr>\<rparr>"

definition session_update_conversation :: "session \<Rightarrow> int \<Rightarrow> conversation \<Rightarrow> session" where
  "session_update_conversation s key row =
     s\<lparr>working := (working s)
         \<lparr>conversations :=
            map (\<lambda>c. if c_id c = key then row else c) (conversations (working s))\<rparr>\<rparr>"

definition session_update_message :: "session \<Rightarrow> int \<Rightarrow> message \<Rightarrow> session" where
  "session_update_message s key row =
     s\<lparr>working := (working s)
         \<lparr>messages := map (\<lambda>m. if m_id m = key then row else m) (messages (working s))\<rparr>\<rparr>"

text \<open>
  \<^verbatim>\<open>session.delete\<close>. An object that is not persistent is refused with
  InvalidRequestError. Both foreign keys are \<^verbatim>\<open>ondelete='CASCADE'\<close>, so the database
  removes the dependent rows. Both relationships are \<^verbatim>\<open>passive_deletes=True\<close> and have no
  delete cascade: dependent rows are not loaded for the delete, but those of a collection that
  is loaded get their foreign key set to NULL by the flush, which the NOT NULL column refuses
  with IntegrityError. That error comes out of the \<^verbatim>\<open>session.commit()\<close> which follows the
  delete at once in each caller.
\<close>

definition session_delete_message :: "session \<Rightarrow> message \<Rightarrow> error + session" where
  "session_delete_message s message =
     (if m_id message \<in> set (map m_id (messages (working s)))
      then Inr (s\<lparr>working := (working s)
                  \<lparr>messages := filter (\<lambda>m. m_id m \<noteq> m_id message) (messages (working s))\<rparr>\<rparr>)
      else Inl InvalidRequestError)"

definition session_delete_conversation :: "session \<Rightarrow> conversation \<Rightarrow> error + session" where
  "session_delete_conversation s conversation =
     (if c_id conversation \<in> set (map c_id (conversations (working s)))
      then if c_id conversation \<in> set (loaded_messages s) \<and>
              filter (\<lambda>m. m_conversation_id m = c_id conversation) (messages (working s)) \<noteq> []
           then Inl IntegrityError
           else Inr (s\<lparr>working := (working s)
                  \<lparr>conversations :=
                     filter (\<lambda>c. c_id c \<noteq> c_id conversation) (conversations (working s)),
                   messages :=
                     filter (\<lambda>m. m_conversation_id m \<noteq> c_id conversation)
                       (messages (working s))\<rparr>\<rparr>)
      else Inl InvalidRequestError)"

definition session_delete_user :: "session \<Rightarrow> user \<Rightarrow> error + session" where
  "session_delete_user s user =
     (if u_id user \<in> set (map u_id (users (working s)))
      then if u_id user \<in> set (loaded_conversations s) \<and>
              filter (\<lambda>c. c_user_id c = u_id user) (conversations (working s)) \<noteq> []
           then Inl IntegrityError
           else (let gone = map c_id (filter (\<lambda>c. c_user_id c = u_id user)
                                        (conversations (working s)))
                 in Inr (s\<lparr>working := (working s)
                       \<lparr>users := filter (\<lambda>u. u_id u \<noteq> u_id user) (users (working s)),
                        conversations :=
                          filter (\<lambda>c. c_user_id c \<noteq> u_id user) (conversations (working s)),
                        messages :=
                          filter (\<lambda>m. m_conversation_id m \<notin> set gone)
                            (messages (working s))\<rparr>\<rparr>))
      else Inl InvalidRequestError)"

text \<open>
  \<^verbatim>\<open>session.commit\<close> flushes the transaction under the schema's constraints and makes
  it the committed state; a violated constraint raises IntegrityError. The commit expires
  every loaded attribute, the two collections among them.
\<close>

definition session_commit :: "session \<Rightarrow> error + session" where
  "session_commit s =
     (if integrity_ok (working s)
      then Inr (s\<lparr>committed := working s, commits := Suc (commits s),
                  loaded_conversations := [], loaded_messages := []\<rparr>)
      else Inl IntegrityError)"

section \<open>The Manager: add\<close>

text \<open>\<^verbatim>\<open>preferences or {}\<close>: a falsy value is replaced by the empty dict.\<close>

fun truthy :: "json \<Rightarrow> bool" where
  "truthy JNull = False"
| "truthy (JBool b) = b"
| "truthy (JNum n) = (n \<noteq> 0)"
| "truthy (JStr x) = (x \<noteq> [])"
| "truthy (JArr xs) = (xs \<noteq> [])"
| "truthy (JObj kvs) = (kvs \<noteq> [])"

definition orm_add_user ::
  "session \<Rightarrow> string \<Rightarrow> string option \<Rightarrow> string option \<Rightarrow> string \<Rightarrow> json \<Rightarrow> datetime
     \<Rightarrow> error + user \<times> session" where
  "orm_add_user s username password email default_preset preferences now =
     (let preferences = (if truthy preferences then preferences else JObj []);
          user = \<lparr>u_id = 0, u_username = username, u_password = password, u_email = email,
                  u_default_preset = default_preset, u_created_time = now,
                  u_last_login_time = Some now, u_preferences = preferences\<rparr>;
          (user, s) = session_add_user s user
      in case session_commit s of
           Inl e \<Rightarrow> Inl e
         | Inr s \<Rightarrow> Inr (user, s))"

definition orm_add_conversation ::
  "session \<Rightarrow> user \<Rightarrow> string option \<Rightarrow> bool \<Rightarrow> datetime \<Rightarrow> error + conversation \<times> session" where
  "orm_add_conversation s user title hidden now =
     (let conversation = \<lparr>c_id = 0, c_user_id = u_id user, c_title = title,
                          c_created_time = now, c_updated_time = now, c_hidden = False\<rparr>;
          (conversation, s) = session_add_conversation s conversation
      in case session_commit s of
           Inl e \<Rightarrow> Inl e
         | Inr s \<Rightarrow> Inr (conversation, s))"

text \<open>
  When the conversation is not stored, \<^verbatim>\<open>orm_get_conversation\<close> returns None and
  \<^verbatim>\<open>setattr\<close> on it raises.
\<close>

definition orm_add_message ::
  "session \<Rightarrow> conversation \<Rightarrow> string \<Rightarrow> string \<Rightarrow> string \<Rightarrow> string option \<Rightarrow> string \<Rightarrow> string
     \<Rightarrow> string \<Rightarrow> datetime \<Rightarrow> error + message \<times> session" where
  "orm_add_message s conversation role message message_type message_metadata provider model
       preset now =
     (let message = \<lparr>m_id = 0, m_conversation_id = c_id conversation, m_role = role,
                     m_message = message, m_message_type = message_type,
                     m_message_metadata = message_metadata, m_model = model,
                     m_provider = provider, m_preset = preset, m_created_time = now\<rparr>;
          (message, s) = session_add_message s message
      in case orm_get_conversation s (c_id conversation) of
           None \<Rightarrow> Inl AttributeError
         | Some conversation_update \<Rightarrow>
             (let s = session_update_conversation s (c_id conversation_update)
                        (conversation_update\<lparr>c_updated_time := now\<rparr>)
              in case session_commit s of
                   Inl e \<Rightarrow> Inl e
                 | Inr s \<Rightarrow> Inr (message, s)))"

section \<open>The Manager: delete\<close>

text \<open>
  \<^verbatim>\<open>orm_delete_user\<close> ends in \<^verbatim>\<open>return user\<close>; the other two have no return
  statement, so they return None, here the unit value.
\<close>

definition orm_delete_user :: "session \<Rightarrow> user \<Rightarrow> error + user \<times> session" where
  "orm_delete_user s user =
     (case session_delete_user s user of
        Inl e \<Rightarrow> Inl e
      | Inr s \<Rightarrow>
          (case session_commit s of
             Inl e \<Rightarrow> Inl e
           | Inr s \<Rightarrow> Inr (user, s)))"

definition orm_delete_conversation :: "session \<Rightarrow> conversation \<Rightarrow> error + unit \<times> session" where
  "orm_delete_conversation s conversation =
     (case session_delete_conversation s conversation of
        Inl e \<Rightarrow> Inl e
      | Inr s \<Rightarrow>
          (case session_commit s of
             Inl e \<Rightarrow> Inl e
           | Inr s \<Rightarrow> Inr ((), s)))"

definition orm_delete_message :: "session \<Rightarrow> message \<Rightarrow> error + unit \<times> session" where
  "orm_delete_message s message =
     (case session_delete_message s message of
        Inl e \<Rightarrow> Inl e
      | Inr s \<Rightarrow>
          (case session_commit s of
             Inl e \<Rightarrow> Inl e
           | Inr s \<Rightarrow> Inr ((), s)))"

section \<open>The Manager: edit\<close>

text \<open>
  \<^verbatim>\<open>**kwargs\<close> is a dict from column names to values: a list of named, typed values
  whose names are distinct. \<^verbatim>\<open>setattr(obj, key, value)\<close> stores one of them.
\<close>

datatype user_attr =
    U_id int
  | U_username string
  | U_password "string option"
  | U_email "string option"
  | U_default_preset string
  | U_created_time datetime
  | U_last_login_time "datetime option"
  | U_preferences json


fun setattr_user :: "user \<Rightarrow> user_attr \<Rightarrow> user" where
  "setattr_user u (U_id v) = u\<lparr>u_id := v\<rparr>"
| "setattr_user u (U_username v) = u\<lparr>u_username := v\<rparr>"
| "setattr_user u (U_password v) = u\<lparr>u_password := v\<rparr>"
| "setattr_user u (U_email v) = u\<lparr>u_email := v\<rparr>"
| "setattr_user u (U_default_preset v) = u\<lparr>u_default_preset := v\<rparr>"
| "setattr_user u (U_created_time v) = u\<lparr>u_created_time := v\<rparr>"
| "setattr_user u (U_last_login_time v) = u\<lparr>u_last_login_time := v\<rparr>"
| "setattr_user u (U_preferences v) = u\<lparr>u_preferences := v\<rparr>"








datatype message_attr =
    M_id int
  | M_conversation_id int
  | M_role string
  | M_message string
  | M_message_type string
  | M_message_metadata "string option"
  | M_model string
  | M_provider string
  | M_preset string
  | M_created_time datetime

fun message_attr_name :: "message_attr \<Rightarrow> string" where
  "message_attr_name (M_id _) = ''id''"
| "message_attr_name (M_conversation_id _) = ''conversation_id''"
| "message_attr_name (M_role _) = ''role''"
| "message_attr_name (M_message _) = ''message''"
| "message_attr_name (M_message_type _) = ''message_type''"
| "message_attr_name (M_message_metadata _) = ''message_metadata''"
| "message_attr_name (M_model _) = ''model''"
| "message_attr_name (M_provider _) = ''provider''"
| "message_attr_name (M_preset _) = ''preset''"
| "message_attr_name (M_created_time _) = ''created_time''"

fun setattr_message :: "message \<Rightarrow> message_attr \<Rightarrow> message" where
  "setattr_message m (M_id v) = m\<lparr>m_id := v\<rparr>"
| "setattr_message m (M_conversation_id v) = m\<lparr>m_conversation_id := v\<rparr>"
| "setattr_message m (M_role v) = m\<lparr>m_role := v\<rparr>"
| "setattr_message m (M_message v) = m\<lparr>m_message := v\<rparr>"
| "setattr_message m (M_message_type v) = m\<lparr>m_message_type := v\<rparr>"
| "setattr_message m (M_message_metadata v) = m\<lparr>m_message_metadata := v\<rparr>"
| "setattr_message m (M_model v) = m\<lparr>m_model := v\<rparr>"
| "setattr_message m (M_provider v) = m\<lparr>m_provider := v\<rparr>"
| "setattr_message m (M_preset v) = m\<lparr>m_preset := v\<rparr>"
| "setattr_message m (M_created_time v) = m\<lparr>m_created_time := v\<rparr>"



text \<open>
  The loop over \<^verbatim>\<open>kwargs.items()\<close> is a fold over the object. When the object is
  persistent the commit writes it back to its row; any other object is changed in memory
  only, and the commit has nothing to write. The edited object is returned either way.
\<close>

definition orm_edit_user :: "session \<Rightarrow> user \<Rightarrow> user_attr list \<Rightarrow> error + user \<times> session" where
  "orm_edit_user s user kwargs =
     (let edited = fold (\<lambda>a u. setattr_user u a) kwargs user;
          s = (if u_id user \<in> set (map u_id (users (working s)))
               then session_update_user s (u_id user) edited
               else s)
      in case session_commit s of
           Inl e \<Rightarrow> Inl e
         | Inr s \<Rightarrow> Inr (edited, s))"


text \<open>
  The first parameter of \<^verbatim>\<open>orm_edit_message(self, message, **kwargs)\<close> is itself named
  \<^verbatim>\<open>message\<close>: a keyword argument \<^verbatim>\<open>message=\<close> is a second value for it, and the call
  raises TypeError before the body runs.
\<close>

definition orm_edit_message ::
  "session \<Rightarrow> message \<Rightarrow> message_attr list \<Rightarrow> error + message \<times> session" where
  "orm_edit_message s message kwargs =
     (if ''message'' \<in> set (map message_attr_name kwargs)
      then Inl TypeError
      else (let edited = fold (\<lambda>a m. setattr_message m a) kwargs message;
                s = (if m_id message \<in> set (map m_id (messages (working s)))
                     then session_update_message s (m_id message) edited
                     else s)
            in case session_commit s of
                 Inl e \<Rightarrow> Inl e
               | Inr s \<Rightarrow> Inr (edited, s)))"

section \<open>A small database\<close>

text \<open>Two users, three conversations, three messages; used to run the operations.\<close>

definition ex_alice :: user where
  "ex_alice = \<lparr>u_id = 1, u_username = ''alice'', u_password = None, u_email = Some ''a@x.org'',
               u_default_preset = [], u_created_time = 10, u_last_login_time = Some 10,
               u_preferences = JObj []\<rparr>"

definition ex_bob :: user where
  "ex_bob = \<lparr>u_id = 2, u_username = ''bob'', u_password = Some ''pw'', u_email = None,
             u_default_preset = ''turbo'', u_created_time = 5, u_last_login_time = Some 5,
             u_preferences = JObj [(''theme'', JStr ''dark'')]\<rparr>"

definition ex_conv1 :: conversation where
  "ex_conv1 = \<lparr>c_id = 1, c_user_id = 1, c_title = Some ''first'', c_created_time = 11,
               c_updated_time = 13, c_hidden = False\<rparr>"

definition ex_conv2 :: conversation where
  "ex_conv2 = \<lparr>c_id = 2, c_user_id = 2, c_title = None, c_created_time = 12,
               c_updated_time = 14, c_hidden = False\<rparr>"

definition ex_conv3 :: conversation where
  "ex_conv3 = \<lparr>c_id = 3, c_user_id = 1, c_title = Some ''third'', c_created_time = 15,
               c_updated_time = 15, c_hidden = True\<rparr>"

definition ex_msg1 :: message where
  "ex_msg1 = \<lparr>m_id = 1, m_conversation_id = 1, m_role = ''user'', m_message = ''hi'',
              m_message_type = ''content'', m_message_metadata = None, m_model = ''m'',
              m_provider = ''p'', m_preset = [], m_created_time = 11\<rparr>"

definition ex_msg2 :: message where
  "ex_msg2 = \<lparr>m_id = 2, m_conversation_id = 1, m_role = ''assistant'', m_message = ''hello'',
              m_message_type = ''content'', m_message_metadata = None, m_model = ''m'',
              m_provider = ''p'', m_preset = [], m_created_time = 13\<rparr>"

definition ex_msg3 :: message where
  "ex_msg3 = \<lparr>m_id = 3, m_conversation_id = 2, m_role = ''user'', m_message = ''hey'',
              m_message_type = ''content'', m_message_metadata = None, m_model = ''m'',
              m_provider = ''p'', m_preset = [], m_created_time = 14\<rparr>"

definition ex_db :: db where
  "ex_db = \<lparr>users = [ex_bob, ex_alice],
            conversations = [ex_conv1, ex_conv2, ex_conv3],
            messages = [ex_msg2, ex_msg1, ex_msg3]\<rparr>"

definition ex_session :: session where
  "ex_session = \<lparr>working = ex_db, committed = ex_db, commits = 0,
                  loaded_conversations = [], loaded_messages = []\<rparr>"

definition ex_carol :: user where
  "ex_carol = \<lparr>u_id = 3, u_username = ''carol'', u_password = None, u_email = None,
               u_default_preset = [], u_created_time = 20, u_last_login_time = Some 20,
               u_preferences = JObj []\<rparr>"

definition ex_db_carol :: db where
  "ex_db_carol = \<lparr>users = [ex_bob, ex_alice, ex_carol],
                  conversations = [ex_conv1, ex_conv2, ex_conv3],
                  messages = [ex_msg2, ex_msg1, ex_msg3]\<rparr>"

lemmas ex_defs = ex_session_def ex_db_def ex_alice_def ex_bob_def ex_conv1_def ex_conv2_def
  ex_conv3_def ex_msg1_def ex_msg2_def ex_msg3_def

lemmas q_defs = session_query_def filter_q_def order_by_def limit_q_def offset_q_def all_q_def
  apply_limit_offset_def

section \<open>Keys, lookups and the constraints\<close>

lemma fold_max_ge: "(x::int) \<le> fold max xs x \<and> (\<forall>y\<in>set xs. y \<le> fold max xs x)"
proof (induction xs arbitrary: x)
  case Nil
  show ?case by simp
next
  case (Cons a xs)
  from Cons.IH [of "max a x"] show ?case by auto
qed

lemma next_id_fresh: "i \<in> set ids \<Longrightarrow> i < next_id ids"
proof (cases ids)
  case Nil
  then show "i \<in> set ids \<Longrightarrow> i < next_id ids" by simp
next
  case (Cons x xs)
  assume "i \<in> set ids"
  with Cons fold_max_ge [of x xs] have "i \<le> fold max xs x" by auto
  with Cons show "i < next_id ids" by (simp add: next_id_def)
qed

lemma next_id_notin: "next_id ids \<notin> set ids"
  using next_id_fresh [of "next_id ids" ids] by auto

lemma find_snoc_fresh:
  assumes "\<forall>y\<in>set xs. \<not> P y" and "P x"
  shows "find P (xs @ [x]) = Some x"
  using assms by (induction xs) auto

lemma find_key_snoc:
  assumes "k x \<notin> set (map k xs)"
  shows "find (\<lambda>y. k y = k x) (xs @ [x]) = Some x"
  using assms by (induction xs) auto

lemma session_commit_Inr:
  "session_commit s = Inr s' \<Longrightarrow>
     integrity_ok (working s) \<and> integrity_ok (working s') \<and>
     working s' = working s \<and> committed s' = working s' \<and> commits s' = Suc (commits s)"
  by (auto simp: session_commit_def split: if_splits)

lemma find_key_Some: "find (\<lambda>y. k y = i) xs = Some x \<Longrightarrow> x \<in> set xs \<and> k x = i"
  by (induction xs) (auto split: if_splits)

lemma find_map_replace:
  assumes "find (\<lambda>y. k y = i) xs = Some x" and "k r = i"
  shows "find (\<lambda>y. k y = i) (map (\<lambda>y. if k y = i then r else y) xs) = Some r"
  using assms by (induction xs) (auto split: if_splits)

lemma map_key_replace:
  "k r = i \<Longrightarrow> map k (map (\<lambda>y. if k y = i then r else y) xs) = map k xs"
  by (induction xs) auto

lemma distinct_map_filter_option:
  "distinct (List.map_filter f xs) \<Longrightarrow> distinct (List.map_filter f (filter P xs))"
proof (induction xs)
  case Nil
  show ?case by simp
next
  case (Cons x xs)
  have sub: "set (List.map_filter f (filter P xs)) \<subseteq> set (List.map_filter f xs)"
    by (auto simp: List.map_filter_def)
  from Cons sub show ?case by (auto split: option.splits)
qed

lemma integrity_delete_message:
  assumes "integrity_ok d"
  shows "integrity_ok (d\<lparr>messages := filter P (messages d)\<rparr>)"
  using assms by (auto simp: integrity_ok_def distinct_map_filter list_all_iff)

lemma integrity_delete_conversation:
  assumes "integrity_ok d"
  shows "integrity_ok (d\<lparr>conversations := filter (\<lambda>c. c_id c \<noteq> i) (conversations d),
                          messages := filter (\<lambda>m. m_conversation_id m \<noteq> i) (messages d)\<rparr>)"
  using assms by (auto simp: integrity_ok_def distinct_map_filter list_all_iff)

lemma integrity_delete_user:
  assumes "integrity_ok d"
  shows "integrity_ok
     (d\<lparr>users := filter (\<lambda>u. u_id u \<noteq> i) (users d),
        conversations := filter (\<lambda>c. c_user_id c \<noteq> i) (conversations d),
        messages := filter (\<lambda>m. m_conversation_id m \<notin>
                        set (map c_id (filter (\<lambda>c. c_user_id c = i) (conversations d))))
                      (messages d)\<rparr>)"
  using assms
  by (auto simp: integrity_ok_def distinct_map_filter distinct_map_filter_option list_all_iff)
    blast


lemma integrity_refs:
  assumes "integrity_ok d"
  shows "(\<forall>c\<in>set (conversations d). \<exists>u\<in>set (users d). u_id u = c_user_id c) \<and>
         (\<forall>m\<in>set (messages d). \<exists>c\<in>set (conversations d). c_id c = m_conversation_id m)"
  using assms unfolding integrity_ok_def list_all_iff by (simp add: image_iff) metis


text \<open>
  What a delete that returns has done: the committed state is the cascade of the state
  before, and every foreign key in it points at a row.
\<close>

lemma orm_delete_user_cascades:
  assumes "orm_delete_user s user = Inr (user', s')"
  shows "user' = user \<and> committed s' = working s' \<and> commits s' = Suc (commits s) \<and>
         set (users (committed s')) =
           {u \<in> set (users (working s)). u_id u \<noteq> u_id user} \<and>
         set (conversations (committed s')) =
           {c \<in> set (conversations (working s)). c_user_id c \<noteq> u_id user} \<and>
         set (messages (committed s')) =
           {m \<in> set (messages (working s)).
              \<forall>c\<in>set (conversations (working s)).
                 c_id c = m_conversation_id m \<longrightarrow> c_user_id c \<noteq> u_id user} \<and>
         (\<forall>c\<in>set (conversations (committed s')).
            \<exists>u\<in>set (users (committed s')). u_id u = c_user_id c) \<and>
         (\<forall>m\<in>set (messages (committed s')).
            \<exists>c\<in>set (conversations (committed s')). c_id c = m_conversation_id m)"
proof -
  from assms obtain s1 where d: "session_delete_user s user = Inr s1"
    and c: "session_commit s1 = Inr s'" and u: "user' = user"
    by (auto simp: orm_delete_user_def split: sum.splits)
  from d have w: "working s1 = (working s)
       \<lparr>users := filter (\<lambda>u. u_id u \<noteq> u_id user) (users (working s)),
        conversations := filter (\<lambda>c. c_user_id c \<noteq> u_id user) (conversations (working s)),
        messages := filter (\<lambda>m. m_conversation_id m \<notin>
                        set (map c_id (filter (\<lambda>c. c_user_id c = u_id user)
                                         (conversations (working s)))))
                      (messages (working s))\<rparr>"
    and n: "commits s1 = commits s"
    by (auto simp: session_delete_user_def Let_def split: if_splits)
  from session_commit_Inr [OF c] have ok: "integrity_ok (working s1)"
    and s': "committed s' = working s1" "working s' = working s1"
      "commits s' = Suc (commits s1)"
    by simp_all
  have sets: "set (users (working s1)) = {u \<in> set (users (working s)). u_id u \<noteq> u_id user}"
    "set (conversations (working s1)) =
       {c \<in> set (conversations (working s)). c_user_id c \<noteq> u_id user}"
    "set (messages (working s1)) =
       {m \<in> set (messages (working s)).
          \<forall>c\<in>set (conversations (working s)).
             c_id c = m_conversation_id m \<longrightarrow> c_user_id c \<noteq> u_id user}"
    unfolding w by (auto simp: image_iff)
  from integrity_refs [OF ok] sets u n show ?thesis
    unfolding s' by simp
qed

lemma orm_delete_conversation_keeps_references:
  assumes "orm_delete_conversation s conversation = Inr (r, s')"
  shows "committed s' = working s' \<and> commits s' = Suc (commits s) \<and>
         orm_get_conversation s' (c_id conversation) = None \<and>
         (\<forall>c\<in>set (conversations (committed s')).
            \<exists>u\<in>set (users (committed s')). u_id u = c_user_id c) \<and>
         (\<forall>m\<in>set (messages (committed s')).
            \<exists>c\<in>set (conversations (committed s')). c_id c = m_conversation_id m)"
proof -
  from assms obtain s1 where d: "session_delete_conversation s conversation = Inr s1"
    and c: "session_commit s1 = Inr s'"
    by (auto simp: orm_delete_conversation_def split: sum.splits)
  from d have w: "conversations (working s1) =
      filter (\<lambda>c. c_id c \<noteq> c_id conversation) (conversations (working s))"
    and n: "commits s1 = commits s"
    by (auto simp: session_delete_conversation_def split: if_splits)
  from session_commit_Inr [OF c] have ok: "integrity_ok (working s1)"
    and s': "committed s' = working s1" "working s' = working s1"
      "commits s' = Suc (commits s1)"
    by simp_all
  have "orm_get_conversation s' (c_id conversation) = None"
    by (simp add: orm_get_conversation_def s' w find_None_iff)
  with integrity_refs [OF ok] n show ?thesis
    unfolding s' by simp
qed

lemma orm_delete_message_keeps_references:
  assumes "orm_delete_message s message = Inr (r, s')"
  shows "committed s' = working s' \<and> commits s' = Suc (commits s) \<and>
         orm_get_message s' (m_id message) = None \<and>
         (\<forall>c\<in>set (conversations (committed s')).
            \<exists>u\<in>set (users (committed s')). u_id u = c_user_id c) \<and>
         (\<forall>m\<in>set (messages (committed s')).
            \<exists>c\<in>set (conversations (committed s')). c_id c = m_conversation_id m)"
proof -
  from assms obtain s1 where d: "session_delete_message s message = Inr s1"
    and c: "session_commit s1 = Inr s'"
    by (auto simp: orm_delete_message_def split: sum.splits)
  from d have w: "messages (working s1) =
      filter (\<lambda>m. m_id m \<noteq> m_id message) (messages (working s))"
    and n: "commits s1 = commits s"
    by (auto simp: session_delete_message_def split: if_splits)
  from session_commit_Inr [OF c] have ok: "integrity_ok (working s1)"
    and s': "committed s' = working s1" "working s' = working s1"
      "commits s' = Suc (commits s1)"
    by simp_all
  have "orm_get_message s' (m_id message) = None"
    by (simp add: orm_get_message_def s' w find_None_iff)
  with integrity_refs [OF ok] n show ?thesis
    unfolding s' by simp
qed

text \<open>
  When a delete returns: the object is persistent, the state satisfies the constraints, and
  the collection of its dependents is not loaded (or is empty).
\<close>

lemma orm_delete_user_succeeds:
  assumes "integrity_ok (working s)"
    and "u_id user \<in> set (map u_id (users (working s)))"
    and "u_id user \<notin> set (loaded_conversations s) \<or>
         filter (\<lambda>c. c_user_id c = u_id user) (conversations (working s)) = []"
  shows "\<exists>s'. orm_delete_user s user = Inr (user, s')"
  using integrity_delete_user [OF assms(1), of "u_id user"] assms(2,3)
  by (auto simp: orm_delete_user_def session_commit_def session_delete_user_def Let_def)

lemma orm_delete_conversation_succeeds:
  assumes "integrity_ok (working s)"
    and "c_id conversation \<in> set (map c_id (conversations (working s)))"
    and "c_id conversation \<notin> set (loaded_messages s) \<or>
         filter (\<lambda>m. m_conversation_id m = c_id conversation) (messages (working s)) = []"
  shows "\<exists>s'. orm_delete_conversation s conversation = Inr ((), s')"
  using integrity_delete_conversation [OF assms(1), of "c_id conversation"] assms(2,3)
  by (auto simp: orm_delete_conversation_def session_commit_def
        session_delete_conversation_def)

lemma orm_delete_message_succeeds:
  assumes "integrity_ok (working s)"
    and "m_id message \<in> set (map m_id (messages (working s)))"
  shows "\<exists>s'. orm_delete_message s message = Inr ((), s')"
  using integrity_delete_message [OF assms(1), of "\<lambda>m. m_id m \<noteq> m_id message"] assms(2)
  by (auto simp: orm_delete_message_def session_commit_def session_delete_message_def)

text \<open>The errors of a delete: an object that is not stored, and a loaded collection.\<close>

lemma orm_delete_user_not_persistent:
  assumes "u_id user \<notin> set (map u_id (users (working s)))"
  shows "orm_delete_user s user = Inl InvalidRequestError"
  using assms by (simp add: orm_delete_user_def session_delete_user_def)

lemma orm_delete_user_loaded:
  assumes "u_id user \<in> set (map u_id (users (working s)))"
    and "u_id user \<in> set (loaded_conversations s)"
    and "filter (\<lambda>c. c_user_id c = u_id user) (conversations (working s)) \<noteq> []"
  shows "orm_delete_user s user = Inl IntegrityError"
  using assms by (simp add: orm_delete_user_def session_delete_user_def)

lemma integrity_ex_db: "integrity_ok ex_db"
  by (simp add: integrity_ok_def ex_defs List.map_filter_def)

section \<open>Reads\<close>

lemma rev_sort_key_head:
  assumes "rev (sort_key f xs) = y # ys"
  shows "y \<in> set xs \<and> (\<forall>x\<in>set xs. f x \<le> f y)"
proof -
  from assms have eq: "sort_key f xs = rev ys @ [y]"
    by (metis rev_rev_ident rev.simps(2))
  have "sorted (map f (sort_key f xs))" by simp
  with eq have "sorted (map f (rev ys) @ [f y])" by simp
  then have le: "\<forall>a\<in>set (map f (rev ys)). a \<le> f y"
    by (simp add: sorted_append)
  have "set xs = set (rev ys @ [y])" using eq by (metis set_sort)
  with le show ?thesis by auto
qed

lemma orm_get_last_message_eq:
  "orm_get_last_message s conversation =
     (case rev (sort_key m_id (filter (\<lambda>m. m_conversation_id m = c_id conversation)
                 (messages (working s)))) of
        [] \<Rightarrow> Inr None | x # _ \<Rightarrow> Inr (Some x))"
  by (simp add: orm_get_last_message_def order_by_desc_def first_q_def q_defs
        split: list.splits)

lemma orm_get_messages_unlimited:
  "N \<noteq> 0 \<Longrightarrow> orm_get_messages s conversation None None (Some N) =
     Inr (filter (\<lambda>m. m_id m \<le> N)
            (sort_key m_id (filter (\<lambda>m. m_conversation_id m = c_id conversation)
               (messages (working s)))))"
  by (simp add: orm_get_messages_def q_defs)

text \<open>
  The descending branch of \<^verbatim>\<open>orm_get_conversations\<close> returns only conversations of
  the user, newest first.
\<close>

lemma window_subset: "set (take n (drop k xs)) \<subseteq> set xs"
  by (meson set_take_subset set_drop_subset subset_trans)

lemma orm_get_conversations_descending:
  assumes "orm_get_conversations s user limit offset True = Inr cs"
  shows "(\<forall>c\<in>set cs. c \<in> set (conversations (working s)) \<and> c_user_id c = u_id user) \<and>
         sorted (rev (map c_id cs))"
proof -
  let ?all = "rev (sort_key c_id (filter (\<lambda>c. c_user_id c = u_id user)
                (conversations (working s))))"
  have desc: "sorted (rev (map c_id ?all))" by (simp add: rev_map)
  have cs: "cs = (let skipped = drop (case offset of None \<Rightarrow> 0 | Some k \<Rightarrow> k) ?all
                  in case limit of None \<Rightarrow> skipped | Some n \<Rightarrow> take n skipped)"
    using assms
    by (cases limit; cases offset)
       (auto simp: orm_get_conversations_def order_by_desc_def q_defs)
  have sub: "set cs \<subseteq> set ?all"
    unfolding cs Let_def by (cases limit) (simp_all only: option.case set_drop_subset window_subset)
  have "sorted (rev (map c_id cs))"
    unfolding cs Let_def
    by (cases limit; cases offset)
       (simp_all add: rev_map [symmetric] take_map [symmetric] drop_map [symmetric]
          sorted_wrt_rev sorted_wrt_take sorted_wrt_drop)
  with sub show ?thesis by auto
qed

text \<open>
  C9: \<^verbatim>\<open>orm_get_users(limit, offset)\<close> returns the stored users ordered by username,
  with the offset and the limit applied when given: there is an ordering of all the stored
  users by username of which the result is the window that skips \<open>offset\<close> rows and keeps
  at most \<open>limit\<close> rows.
\<close>

theorem orm_get_users_ordered:
  "\<exists>ordered. mset ordered = mset (users (working s)) \<and>
      sorted (map u_username ordered) \<and>
      orm_get_users s limit offset =
        Inr (let skipped = drop (case offset of None \<Rightarrow> 0 | Some k \<Rightarrow> k) ordered
             in case limit of None \<Rightarrow> skipped | Some n \<Rightarrow> take n skipped)"
proof (intro exI conjI)
  show "mset (sort_key u_username (users (working s))) = mset (users (working s))" by simp
  show "sorted (map u_username (sort_key u_username (users (working s))))" by simp
  show "orm_get_users s limit offset =
        Inr (let skipped = drop (case offset of None \<Rightarrow> 0 | Some k \<Rightarrow> k)
                             (sort_key u_username (users (working s)))
             in case limit of None \<Rightarrow> skipped | Some n \<Rightarrow> take n skipped)"
    by (cases limit; cases offset) (simp_all add: orm_get_users_def q_defs)
qed

text \<open>
  C8: \<^verbatim>\<open>orm_get_last_message(conversation)\<close> returns None when the conversation has no
  message, and otherwise the message of that conversation whose id is the greatest.
\<close>

theorem orm_get_last_message_greatest:
  "((\<forall>m\<in>set (messages (working s)). m_conversation_id m \<noteq> c_id conversation)
      \<longrightarrow> orm_get_last_message s conversation = Inr None) \<and>
   ((\<exists>m\<in>set (messages (working s)). m_conversation_id m = c_id conversation)
      \<longrightarrow> (\<exists>l. orm_get_last_message s conversation = Inr (Some l) \<and>
               l \<in> set (messages (working s)) \<and>
               m_conversation_id l = c_id conversation \<and>
               (\<forall>m\<in>set (messages (working s)).
                  m_conversation_id m = c_id conversation \<longrightarrow> m_id m \<le> m_id l)))"
proof (intro conjI impI)
  let ?own = "filter (\<lambda>m. m_conversation_id m = c_id conversation) (messages (working s))"
  assume "\<forall>m\<in>set (messages (working s)). m_conversation_id m \<noteq> c_id conversation"
  then have "?own = []" by (simp add: filter_empty_conv)
  then show "orm_get_last_message s conversation = Inr None"
    by (simp add: orm_get_last_message_eq)
next
  let ?own = "filter (\<lambda>m. m_conversation_id m = c_id conversation) (messages (working s))"
  assume "\<exists>m\<in>set (messages (working s)). m_conversation_id m = c_id conversation"
  then have "?own \<noteq> []" by (simp add: filter_empty_conv)
  then have "rev (sort_key m_id ?own) \<noteq> []"
    by (metis rev_is_Nil_conv length_sort length_0_conv)
  then obtain l ls where l: "rev (sort_key m_id ?own) = l # ls"
    by (cases "rev (sort_key m_id ?own)") auto
  from rev_sort_key_head [OF l]
  have "l \<in> set ?own" and "\<forall>x\<in>set ?own. m_id x \<le> m_id l" by auto
  moreover have "orm_get_last_message s conversation = Inr (Some l)"
    using l by (simp add: orm_get_last_message_eq)
  ultimately show "\<exists>l. orm_get_last_message s conversation = Inr (Some l) \<and>
               l \<in> set (messages (working s)) \<and>
               m_conversation_id l = c_id conversation \<and>
               (\<forall>m\<in>set (messages (working s)).
                  m_conversation_id m = c_id conversation \<longrightarrow> m_id m \<le> m_id l)"
    by auto
qed

theorem orm_get_last_message_greatest_witness:
  "ex_msg2 \<in> set (messages (working ex_session)) \<and>
   m_conversation_id ex_msg2 = c_id ex_conv1 \<and>
   orm_get_last_message ex_session ex_conv1 = Inr (Some ex_msg2) \<and>
   m_id ex_msg1 \<le> m_id ex_msg2 \<and>
   orm_get_last_message ex_session ex_conv3 = Inr None"
  using orm_get_last_message_greatest [of ex_session ex_conv1]
    orm_get_last_message_greatest [of ex_session ex_conv3]
  by (simp add: orm_get_last_message_def order_by_desc_def first_q_def q_defs ex_defs)

text \<open>
  C1, on the ascending branch: with \<^verbatim>\<open>order_desc=False\<close> the query has no filter on
  \<^verbatim>\<open>user_id\<close>, so alice is given bob's conversation as well; with \<^verbatim>\<open>order_desc=True\<close>
  she is given her own two, newest first.
\<close>

theorem orm_get_conversations_ascending_ignores_user:
  "orm_get_conversations ex_session ex_alice None None False =
     Inr [ex_conv1, ex_conv2, ex_conv3] \<and>
   c_user_id ex_conv2 \<noteq> u_id ex_alice \<and>
   orm_get_conversations ex_session ex_alice None None True = Inr [ex_conv3, ex_conv1]"
  by (simp add: orm_get_conversations_def order_by_desc_def q_defs ex_defs)

text \<open>
  A target other than 0 together with a limit or an offset: the filter is called on a query
  that already has a LIMIT or an OFFSET, and the call raises.
\<close>

lemma orm_get_messages_filter_after_limit:
  assumes "N \<noteq> 0" and "limit \<noteq> None \<or> offset \<noteq> None"
  shows "orm_get_messages s conversation limit offset (Some N) = Inl InvalidRequestError"
  using assms by (cases limit; cases offset) (simp_all add: orm_get_messages_def q_defs)

text \<open>
  C2 as stated fails at \<^verbatim>\<open>target_id=0\<close>: 0 is falsy, the filter is skipped, and
  messages 1 and 2 come back.
\<close>

theorem orm_get_messages_target_zero:
  "orm_get_messages ex_session ex_conv1 None None (Some 0) = Inr [ex_msg1, ex_msg2] \<and>
   \<not> m_id ex_msg1 \<le> 0"
  by (simp add: orm_get_messages_def q_defs ex_defs)

text \<open>
  C2, amended: for every conversation and every N other than 0,
  \<^verbatim>\<open>orm_get_messages(conversation, target_id=N)\<close>, called without limit and offset, returns
  exactly the messages of that conversation whose id is at most N, ordered by id ascending.
  With \<^verbatim>\<open>target_id=0\<close> the cap is not applied: for every limit and offset the call returns
  what it returns without a target, which is the messages of the conversation ordered by id
  ascending, with the offset and the limit applied.
\<close>

theorem orm_get_messages_target_id:
  "(N \<noteq> 0 \<longrightarrow>
      (\<exists>ms. orm_get_messages s conversation None None (Some N) = Inr ms \<and>
         mset ms = mset (filter (\<lambda>m. m_conversation_id m = c_id conversation \<and> m_id m \<le> N)
                           (messages (working s))) \<and>
         sorted (map m_id ms))) \<and>
   orm_get_messages s conversation limit offset (Some 0) =
     orm_get_messages s conversation limit offset None \<and>
   (\<exists>ordered.
      mset ordered = mset (filter (\<lambda>m. m_conversation_id m = c_id conversation)
                             (messages (working s))) \<and>
      sorted (map m_id ordered) \<and>
      orm_get_messages s conversation limit offset None =
        Inr (let skipped = drop (case offset of None \<Rightarrow> 0 | Some k \<Rightarrow> k) ordered
             in case limit of None \<Rightarrow> skipped | Some n \<Rightarrow> take n skipped))"
proof (intro conjI impI)
  let ?own = "sort_key m_id (filter (\<lambda>m. m_conversation_id m = c_id conversation)
                (messages (working s)))"
  let ?r = "filter (\<lambda>m. m_id m \<le> N) ?own"
  assume "N \<noteq> 0"
  then have run: "orm_get_messages s conversation None None (Some N) = Inr ?r"
    by (rule orm_get_messages_unlimited)
  have perm: "mset ?r = mset (filter (\<lambda>m. m_conversation_id m = c_id conversation \<and> m_id m \<le> N)
                              (messages (working s)))"
    by (simp add: filter_filter_mset)
  have asc: "sorted (map m_id ?r)" by (simp add: sorted_filter)
  from run perm asc
  show "\<exists>ms. orm_get_messages s conversation None None (Some N) = Inr ms \<and>
         mset ms = mset (filter (\<lambda>m. m_conversation_id m = c_id conversation \<and> m_id m \<le> N)
                           (messages (working s))) \<and>
         sorted (map m_id ms)"
    by blast
next
  show "orm_get_messages s conversation limit offset (Some 0) =
     orm_get_messages s conversation limit offset None"
    by (simp add: orm_get_messages_def)
next
  let ?own = "sort_key m_id (filter (\<lambda>m. m_conversation_id m = c_id conversation)
                (messages (working s)))"
  have "mset ?own = mset (filter (\<lambda>m. m_conversation_id m = c_id conversation)
                             (messages (working s)))"
    by simp
  moreover have "sorted (map m_id ?own)" by simp
  moreover have "orm_get_messages s conversation limit offset None =
        Inr (let skipped = drop (case offset of None \<Rightarrow> 0 | Some k \<Rightarrow> k) ?own
             in case limit of None \<Rightarrow> skipped | Some n \<Rightarrow> take n skipped)"
    by (cases limit; cases offset) (simp_all add: orm_get_messages_def q_defs)
  ultimately show "\<exists>ordered.
      mset ordered = mset (filter (\<lambda>m. m_conversation_id m = c_id conversation)
                             (messages (working s))) \<and>
      sorted (map m_id ordered) \<and>
      orm_get_messages s conversation limit offset None =
        Inr (let skipped = drop (case offset of None \<Rightarrow> 0 | Some k \<Rightarrow> k) ordered
             in case limit of None \<Rightarrow> skipped | Some n \<Rightarrow> take n skipped)"
    by blast
qed

theorem orm_get_messages_target_id_witness:
  "(1::int) \<noteq> 0 \<and>
   orm_get_messages ex_session ex_conv1 None None (Some 1) = Inr [ex_msg1] \<and>
   m_conversation_id ex_msg1 = c_id ex_conv1 \<and> m_id ex_msg1 \<le> 1 \<and>
   orm_get_messages ex_session ex_conv1 (Some 1) (Some 1) (Some 0) = Inr [ex_msg2] \<and>
   orm_get_messages ex_session ex_conv1 (Some 1) (Some 1) None = Inr [ex_msg2]"
  using orm_get_messages_target_id [of 1 ex_session ex_conv1 "Some 1" "Some 1"]
  by (simp add: orm_get_messages_def q_defs ex_defs)

section \<open>Writes\<close>

text \<open>
  From a state that satisfies the constraints, a user with a new username and a new (or no)
  email is added, and a conversation is added for a stored user.
\<close>

lemma map_filter_snoc:
  "List.map_filter f (xs @ [x]) =
     List.map_filter f xs @ (case f x of None \<Rightarrow> [] | Some y \<Rightarrow> [y])"
  by (induction xs) (auto split: option.splits)

lemma orm_add_user_succeeds:
  assumes ok: "integrity_ok (working s)"
    and name: "username \<notin> set (map u_username (users (working s)))"
    and mail: "case email of None \<Rightarrow> True
               | Some e \<Rightarrow> e \<notin> set (List.map_filter u_email (users (working s)))"
  shows "\<exists>user s'. orm_add_user s username password email default_preset preferences now
           = Inr (user, s')"
proof -
  let ?row = "\<lparr>u_id = next_id (map u_id (users (working s))), u_username = username,
               u_password = password, u_email = email, u_default_preset = default_preset,
               u_created_time = now, u_last_login_time = Some now,
               u_preferences = (if truthy preferences then preferences else JObj [])\<rparr>"
  have fresh: "u_id ?row \<notin> set (map u_id (users (working s)))"
    using next_id_notin [of "map u_id (users (working s))"] by simp
  have "integrity_ok ((working s)\<lparr>users := users (working s) @ [?row]\<rparr>)"
    using ok fresh name mail
    by (auto simp: integrity_ok_def map_filter_snoc list_all_iff split: option.splits)
  then show ?thesis
    by (simp add: orm_add_user_def session_add_user_def session_commit_def Let_def)
qed

lemma orm_add_conversation_succeeds:
  assumes ok: "integrity_ok (working s)"
    and stored: "u_id user \<in> set (map u_id (users (working s)))"
  shows "\<exists>conversation s'. orm_add_conversation s user title hidden now
           = Inr (conversation, s')"
proof -
  let ?row = "\<lparr>c_id = next_id (map c_id (conversations (working s))), c_user_id = u_id user,
               c_title = title, c_created_time = now, c_updated_time = now,
               c_hidden = False\<rparr>"
  have fresh: "c_id ?row \<notin> set (map c_id (conversations (working s)))"
    using next_id_notin [of "map c_id (conversations (working s))"] by simp
  have "integrity_ok ((working s)\<lparr>conversations := conversations (working s) @ [?row]\<rparr>)"
    using ok fresh stored
    by (auto simp: integrity_ok_def list_all_iff)
  then show ?thesis
    by (simp add: orm_add_conversation_def session_add_conversation_def session_commit_def
          Let_def)
qed

text \<open>
  C5 as stated fails when \<^verbatim>\<open>preferences\<close> is None (the parameter's default): the stored
  and fetched user holds the empty dict, not None.
\<close>

theorem orm_add_user_falsy_preferences:
  "orm_add_user ex_session ''carol'' None None [] JNull 20 =
     Inr (ex_carol, \<lparr>working = ex_db_carol, committed = ex_db_carol, commits = 1,
           loaded_conversations = [], loaded_messages = []\<rparr>) \<and>
   orm_get_user \<lparr>working = ex_db_carol, committed = ex_db_carol, commits = 1,
           loaded_conversations = [], loaded_messages = []\<rparr> (u_id ex_carol)
     = Some ex_carol \<and>
   u_preferences ex_carol \<noteq> JNull"
  by (simp add: orm_add_user_def session_add_user_def session_commit_def integrity_ok_def
        next_id_def orm_get_user_def List.map_filter_def Let_def ex_defs ex_carol_def
        ex_db_carol_def)

text \<open>
  C5, amended: when \<^verbatim>\<open>orm_add_user\<close> returns, \<^verbatim>\<open>orm_get_user\<close> with the new user's id
  returns that user, whose username, password, email and default_preset are the values
  supplied, and whose preferences are the value supplied when it is truthy and the empty
  dict otherwise.
\<close>

theorem orm_add_user_round_trip:
  assumes "orm_add_user s username password email default_preset preferences now = Inr (user, s')"
  shows "orm_get_user s' (u_id user) = Some user \<and>
         u_username user = username \<and> u_password user = password \<and>
         u_email user = email \<and> u_default_preset user = default_preset \<and>
         u_preferences user = (if truthy preferences then preferences else JObj [])"
proof -
  let ?row = "\<lparr>u_id = next_id (map u_id (users (working s))), u_username = username,
               u_password = password, u_email = email, u_default_preset = default_preset,
               u_created_time = now, u_last_login_time = Some now,
               u_preferences = (if truthy preferences then preferences else JObj [])\<rparr>"
  from assms have user: "user = ?row"
    and s': "users (working s') = users (working s) @ [?row]"
    by (auto simp: orm_add_user_def session_add_user_def session_commit_def Let_def
             split: if_splits)
  have "u_id ?row \<notin> set (map u_id (users (working s)))"
    using next_id_notin [of "map u_id (users (working s))"] by simp
  from find_key_snoc [of u_id ?row, OF this]
  have "orm_get_user s' (u_id user) = Some user"
    unfolding orm_get_user_def s' user .
  then show ?thesis by (simp add: user)
qed

theorem orm_add_user_round_trip_witness:
  "\<exists>user s'.
     orm_add_user ex_session ''dave'' (Some ''pw'') (Some ''d@x.org'') ''turbo''
       (JObj [(''theme'', JStr ''light'')]) 20 = Inr (user, s') \<and>
     orm_get_user s' (u_id user) = Some user \<and>
     u_username user = ''dave'' \<and> u_password user = Some ''pw'' \<and>
     u_email user = Some ''d@x.org'' \<and> u_default_preset user = ''turbo'' \<and>
     u_preferences user = JObj [(''theme'', JStr ''light'')]"
proof -
  have "\<exists>user s'.
     orm_add_user ex_session ''dave'' (Some ''pw'') (Some ''d@x.org'') ''turbo''
       (JObj [(''theme'', JStr ''light'')]) 20 = Inr (user, s')"
    by (simp add: orm_add_user_def session_add_user_def session_commit_def integrity_ok_def
          next_id_def List.map_filter_def Let_def ex_defs)
  then obtain user s' where run:
    "orm_add_user ex_session ''dave'' (Some ''pw'') (Some ''d@x.org'') ''turbo''
       (JObj [(''theme'', JStr ''light'')]) 20 = Inr (user, s')"
    by blast
  from orm_add_user_round_trip [OF run] run show ?thesis by simp
qed

text \<open>
  C10: whatever the \<^verbatim>\<open>hidden\<close> argument, the conversation that
  \<^verbatim>\<open>orm_add_conversation(user, title, hidden)\<close> creates and returns has
  \<^verbatim>\<open>hidden = False\<close>; it is the row stored under the new id, for that user and title.
\<close>

theorem orm_add_conversation_hidden:
  assumes "orm_add_conversation s user title hidden now = Inr (conversation, s')"
  shows "c_hidden conversation = False \<and>
         orm_get_conversation s' (c_id conversation) = Some conversation \<and>
         c_user_id conversation = u_id user \<and> c_title conversation = title"
proof -
  let ?row = "\<lparr>c_id = next_id (map c_id (conversations (working s))), c_user_id = u_id user,
               c_title = title, c_created_time = now, c_updated_time = now,
               c_hidden = False\<rparr>"
  from assms have c: "conversation = ?row"
    and s': "conversations (working s') = conversations (working s) @ [?row]"
    by (auto simp: orm_add_conversation_def session_add_conversation_def session_commit_def
             Let_def split: if_splits)
  have "c_id ?row \<notin> set (map c_id (conversations (working s)))"
    using next_id_notin [of "map c_id (conversations (working s))"] by simp
  from find_key_snoc [of c_id ?row, OF this]
  have "orm_get_conversation s' (c_id conversation) = Some conversation"
    unfolding orm_get_conversation_def s' c .
  then show ?thesis by (simp add: c)
qed

theorem orm_add_conversation_hidden_witness:
  "\<exists>conversation s'.
     orm_add_conversation ex_session ex_alice (Some ''secret'') True 20 =
       Inr (conversation, s') \<and>
     c_hidden conversation = False \<and>
     orm_get_conversation s' (c_id conversation) = Some conversation"
proof -
  have "\<exists>conversation s'.
     orm_add_conversation ex_session ex_alice (Some ''secret'') True 20 =
       Inr (conversation, s')"
    by (simp add: orm_add_conversation_def session_add_conversation_def session_commit_def
          integrity_ok_def next_id_def List.map_filter_def Let_def ex_defs)
  then obtain conversation s' where run:
    "orm_add_conversation ex_session ex_alice (Some ''secret'') True 20 =
       Inr (conversation, s')"
    by blast
  from orm_add_conversation_hidden [OF run] run show ?thesis by simp
qed

text \<open>
  C3: for a stored conversation, \<^verbatim>\<open>orm_add_message\<close> returns a message whose
  \<^verbatim>\<open>created_time\<close> is the time of the call; it makes one commit, and the committed state
  holds both the new message and the conversation with \<^verbatim>\<open>updated_time\<close> set to that
  same time.
\<close>

theorem orm_add_message_updates_conversation:
  assumes ok: "integrity_ok (working s)"
    and stored: "orm_get_conversation s (c_id conversation) = Some stored"
  shows "\<exists>m s'. orm_add_message s conversation role message message_type message_metadata
                  provider model preset now = Inr (m, s') \<and>
           m_created_time m = now \<and> m_conversation_id m = c_id conversation \<and>
           commits s' = Suc (commits s) \<and> committed s' = working s' \<and>
           orm_get_message s' (m_id m) = Some m \<and>
           orm_get_conversation s' (c_id conversation) = Some (stored\<lparr>c_updated_time := now\<rparr>)"
proof -
  let ?d = "working s"
  let ?m = "\<lparr>m_id = next_id (map m_id (messages ?d)), m_conversation_id = c_id conversation,
             m_role = role, m_message = message, m_message_type = message_type,
             m_message_metadata = message_metadata, m_model = model, m_provider = provider,
             m_preset = preset, m_created_time = now\<rparr>"
  let ?c = "stored\<lparr>c_updated_time := now\<rparr>"
  let ?cs = "map (\<lambda>c. if c_id c = c_id stored then ?c else c) (conversations ?d)"
  let ?d' = "?d\<lparr>messages := messages ?d @ [?m], conversations := ?cs\<rparr>"
  let ?s' = "s\<lparr>working := ?d', committed := ?d', commits := Suc (commits s),
               loaded_conversations := [], loaded_messages := []\<rparr>"
  from stored have st: "stored \<in> set (conversations ?d)" "c_id stored = c_id conversation"
    using find_key_Some [of c_id "c_id conversation" "conversations ?d" stored]
    by (simp_all add: orm_get_conversation_def)
  have ids: "map c_id ?cs = map c_id (conversations ?d)"
    using map_key_replace [of c_id ?c "c_id stored" "conversations ?d"] by simp
  have fresh: "m_id ?m \<notin> set (map m_id (messages ?d))"
    using next_id_notin [of "map m_id (messages ?d)"] by simp
  have fk_c: "list_all (\<lambda>c. c_user_id c \<in> set (map u_id (users ?d))) ?cs"
    using ok st(1) by (auto simp: integrity_ok_def list_all_iff)
  have fk_m: "list_all (\<lambda>m. m_conversation_id m \<in> set (map c_id ?cs)) (messages ?d @ [?m])"
    unfolding ids using ok st by (auto simp: integrity_ok_def list_all_iff image_iff) metis
  have dc: "distinct (map c_id ?cs)"
    unfolding ids using ok by (simp add: integrity_ok_def)
  have dm: "distinct (map m_id (messages ?d @ [?m]))"
    using ok fresh by (simp add: integrity_ok_def)
  have ok': "integrity_ok ?d'"
    using ok dc dm fk_c fk_m by (simp add: integrity_ok_def)
  have run: "orm_add_message s conversation role message message_type message_metadata
                  provider model preset now = Inr (?m, ?s')"
    using stored ok' st(2)
    by (simp add: orm_add_message_def session_add_message_def orm_get_conversation_def
          session_update_conversation_def session_commit_def Let_def)
  have getm: "orm_get_message ?s' (m_id ?m) = Some ?m"
    using find_key_snoc [of m_id ?m, OF fresh] by (simp add: orm_get_message_def)
  have getc: "orm_get_conversation ?s' (c_id conversation) = Some ?c"
    using find_map_replace [of c_id "c_id stored" "conversations ?d" stored ?c] stored st(2)
    by (simp add: orm_get_conversation_def)
  from run getm getc show ?thesis by simp
qed

theorem orm_add_message_updates_conversation_witness:
  "integrity_ok (working ex_session) \<and>
   orm_get_conversation ex_session (c_id ex_conv1) = Some ex_conv1 \<and>
   (\<exists>m s'. orm_add_message ex_session ex_conv1 ''user'' ''more'' ''content'' None ''p'' ''m''
              [] 20 = Inr (m, s') \<and>
      m_created_time m = 20 \<and> commits s' = 1 \<and> committed s' = working s' \<and>
      orm_get_message s' (m_id m) = Some m \<and>
      orm_get_conversation s' (c_id ex_conv1) = Some (ex_conv1\<lparr>c_updated_time := 20\<rparr>))"
proof -
  have ok: "integrity_ok (working ex_session)"
    using integrity_ex_db by (simp add: ex_session_def)
  have stored: "orm_get_conversation ex_session (c_id ex_conv1) = Some ex_conv1"
    by (simp add: orm_get_conversation_def ex_defs)
  have zero: "commits ex_session = 0"
    by (simp add: ex_session_def)
  from orm_add_message_updates_conversation [OF ok stored, of "''user''" "''more''"
      "''content''" None "''p''" "''m''" "[]" 20]
  obtain m s' where
    "orm_add_message ex_session ex_conv1 ''user'' ''more'' ''content'' None ''p'' ''m'' [] 20
       = Inr (m, s')"
    "m_created_time m = 20" "commits s' = Suc (commits ex_session)"
    "committed s' = working s'" "orm_get_message s' (m_id m) = Some m"
    "orm_get_conversation s' (c_id ex_conv1) = Some (ex_conv1\<lparr>c_updated_time := 20\<rparr>)"
    by blast
  with ok stored zero show ?thesis by auto
qed

text \<open>
  C4, where the user's conversations are loaded: after \<^verbatim>\<open>user.conversations\<close> has been read
  (alice has conversations 1 and 3), \<^verbatim>\<open>orm_delete_user\<close> raises IntegrityError and removes
  nothing; on the same store with the collection not loaded it removes alice, her
  conversations and their messages.
\<close>

theorem orm_delete_user_loaded_conversations:
  "fst (user_conversations ex_session ex_alice) = [ex_conv1, ex_conv3] \<and>
   orm_delete_user (snd (user_conversations ex_session ex_alice)) ex_alice
     = Inl IntegrityError \<and>
   orm_delete_user ex_session ex_alice =
     Inr (ex_alice,
          \<lparr>working = \<lparr>users = [ex_bob], conversations = [ex_conv2], messages = [ex_msg3]\<rparr>,
           committed = \<lparr>users = [ex_bob], conversations = [ex_conv2], messages = [ex_msg3]\<rparr>,
           commits = 1, loaded_conversations = [], loaded_messages = []\<rparr>)"
  by (simp add: orm_delete_user_def session_delete_user_def session_commit_def
        user_conversations_def integrity_ok_def List.map_filter_def Let_def ex_defs)

text \<open>
  C6, on the two deletes without a return statement: \<^verbatim>\<open>orm_delete_conversation\<close> and
  \<^verbatim>\<open>orm_delete_message\<close> commit the deletion and return None, where
  \<^verbatim>\<open>orm_delete_user\<close> returns the user it deleted.
\<close>

theorem orm_delete_returns_nothing:
  "orm_delete_conversation ex_session ex_conv1 =
     Inr ((),
          \<lparr>working = \<lparr>users = [ex_bob, ex_alice], conversations = [ex_conv2, ex_conv3],
                       messages = [ex_msg3]\<rparr>,
           committed = \<lparr>users = [ex_bob, ex_alice], conversations = [ex_conv2, ex_conv3],
                         messages = [ex_msg3]\<rparr>,
           commits = 1, loaded_conversations = [], loaded_messages = []\<rparr>) \<and>
   orm_delete_message ex_session ex_msg1 =
     Inr ((),
          \<lparr>working = \<lparr>users = [ex_bob, ex_alice],
                       conversations = [ex_conv1, ex_conv2, ex_conv3],
                       messages = [ex_msg2, ex_msg3]\<rparr>,
           committed = \<lparr>users = [ex_bob, ex_alice],
                         conversations = [ex_conv1, ex_conv2, ex_conv3],
                         messages = [ex_msg2, ex_msg3]\<rparr>,
           commits = 1, loaded_conversations = [], loaded_messages = []\<rparr>) \<and>
   map_sum id fst (orm_delete_user ex_session ex_alice) = Inr ex_alice"
  by (simp add: orm_delete_conversation_def orm_delete_message_def orm_delete_user_def
        session_delete_conversation_def session_delete_message_def session_delete_user_def
        session_commit_def integrity_ok_def List.map_filter_def Let_def ex_defs)

section \<open>Edits\<close>









text \<open>
  The keyword \<^verbatim>\<open>message\<close> of \<^verbatim>\<open>orm_edit_message\<close>: the call raises, whatever the message
  and the other updates.
\<close>

lemma orm_edit_message_keyword_message:
  assumes "''message'' \<in> set (map message_attr_name kwargs)"
  shows "orm_edit_message s message kwargs = Inl TypeError"
  using assms by (simp add: orm_edit_message_def)

text \<open>
  An edit returns when the state it leaves satisfies the constraints; an object that is not
  stored leaves the state as it was.
\<close>

lemma orm_edit_user_not_stored:
  assumes "integrity_ok (working s)" and "u_id user \<notin> set (map u_id (users (working s)))"
  shows "\<exists>s'. orm_edit_user s user kwargs =
                 Inr (fold (\<lambda>a u. setattr_user u a) kwargs user, s') \<and>
               working s' = working s"
  using assms by (simp add: orm_edit_user_def session_commit_def Let_def)




end
